theory Spec2Isabelle
  imports Main "HOL-Library.Sublist"
begin

section \<open>Python values, exceptions and the process state\<close>

text \<open>
  The module \<^verbatim>\<open>mujoco_py/builder.py\<close> has no state of its own: everything it does is
  an effect on the file system, on standard output, on the random generator, or on the
  warning-callback slot of the native module \<^verbatim>\<open>cymj\<close>. These are the fields of
  \<open>world\<close>. Functions that may raise return a sum, with the exception on the left.
\<close>

type_synonym path = string

text \<open>
  The exception classes that occur. All of them derive from \<^verbatim>\<open>Exception\<close>.
  \<open>TimeoutExpired\<close> is \<^verbatim>\<open>subprocess.TimeoutExpired\<close> (a \<^verbatim>\<open>SubprocessError\<close>);
  \<open>TimeoutError\<close> is the builtin of that name (an \<^verbatim>\<open>OSError\<close>). Neither is a
  subclass of the other. \<open>OSError\<close> stands for an operating-system error of a class
  not listed on its own, \<open>OtherError\<close> for an exception of any further class, for
  instance the compiler's \<^verbatim>\<open>VerificationError\<close>.
\<close>

datatype exn =
    AssertionError string
  | CalledProcessError int
  | TimeoutExpired
  | TimeoutError
  | ImportError string
  | PermissionError string
  | FileNotFoundError path
  | IsADirectoryError path
  | OSError string
  | AttributeError string
  | UnicodeDecodeError
  | MujocoException string
  | Exception string
  | OtherError string

fun is_PermissionError :: "exn \<Rightarrow> bool" where
  "is_PermissionError (PermissionError _) = True"
| "is_PermissionError _ = False"

text \<open>\<^verbatim>\<open>str(e)\<close>, for the exceptions that carry a text.\<close>

fun exn_str :: "exn \<Rightarrow> string" where
  "exn_str (AssertionError m) = m"
| "exn_str (ImportError m) = m"
| "exn_str (PermissionError m) = m"
| "exn_str (FileNotFoundError p) = p"
| "exn_str (IsADirectoryError p) = p"
| "exn_str (OSError m) = m"
| "exn_str (AttributeError m) = m"
| "exn_str (MujocoException m) = m"
| "exn_str (Exception m) = m"
| "exn_str (OtherError m) = m"
| "exn_str _ = []"

text \<open>
  The translators that can sit in the warning-callback slot: the two of this module and
  any other callable, told apart by a number.
\<close>

datatype translator =
    User_warning_raise_exception
  | User_warning_ignore_exception
  | Other_callback nat

text \<open>
  \<open>files\<close>: the entries of the working directory, regular files and directories
  alike, by name, in the order the directory lists them. \<open>remove_fails\<close>: the
  entries that \<^verbatim>\<open>os.remove\<close> cannot remove, each with the exception it raises for
  them: \<^verbatim>\<open>PermissionError\<close> for a file that is locked or protected,
  \<^verbatim>\<open>IsADirectoryError\<close> for a directory, or another \<^verbatim>\<open>OSError\<close>. \<open>stdout\<close>: the lines
  printed so far. \<open>rng_pos\<close>: how many random draws have been consumed.
  \<open>warning_callback\<close>: the slot behind \<^verbatim>\<open>cymj.get_warning_callback\<close> and
  \<^verbatim>\<open>cymj.set_warning_callback\<close>.
\<close>

record world =
  files :: "path list"
  remove_fails :: "(path \<times> exn) list"
  stdout :: "string list"
  rng_pos :: nat
  warning_callback :: translator

definition print :: "string \<Rightarrow> world \<Rightarrow> world" where
  "print line w = w\<lparr>stdout := stdout w @ [line]\<rparr>"

text \<open>
  \<^verbatim>\<open>os.remove(f)\<close>: a missing entry raises \<^verbatim>\<open>FileNotFoundError\<close>; an entry that
  cannot be removed raises what the operating system answers for it; otherwise the
  name leaves the directory.
\<close>

definition os_remove :: "path \<Rightarrow> world \<Rightarrow> exn + world" where
  "os_remove f w =
     (if f \<notin> set (files w) then Inl (FileNotFoundError f)
      else case map_of (remove_fails w) f of
             Some e \<Rightarrow> Inl e
           | None \<Rightarrow> Inr (w\<lparr>files := removeAll f (files w)\<rparr>))"

text \<open>
  \<^verbatim>\<open>glob.glob(name + '*')\<close>. The model covers a \<open>name\<close> that is a plain prefix: not
  empty and free of the pattern characters \<^verbatim>\<open>*\<close>, \<^verbatim>\<open>?\<close>, \<^verbatim>\<open>[\<close> and of the path
  separator. For such a name the pattern matches exactly the directory entries that
  begin with \<open>name\<close>, each listed once.
\<close>

definition plain_prefix :: "string \<Rightarrow> bool" where
  "plain_prefix name = (name \<noteq> [] \<and> (\<forall>c \<in> set name. c \<notin> set ''*?[/''))"

definition glob_star :: "string \<Rightarrow> world \<Rightarrow> path list" where
  "glob_star name w = remdups (filter (prefix name) (files w))"

section \<open>The janitor: \<^verbatim>\<open>build_fn_cleanup\<close>\<close>

text \<open>
  \<^verbatim>\<open>os.environ\<close> is an association list. \<^verbatim>\<open>os.environ.get(key, False)\<close> yields the
  variable's string, or \<^verbatim>\<open>False\<close> when it is unset; \<^verbatim>\<open>not\<close> of it is true exactly
  when the variable is unset or is the empty string.
\<close>

type_synonym environ = "(string \<times> string) list"

definition debug_fn_builder :: "environ \<Rightarrow> bool" where
  "debug_fn_builder env =
     (case map_of env ''MUJOCO_PY_DEBUG_FN_BUILDER'' of None \<Rightarrow> False | Some v \<Rightarrow> v \<noteq> [])"

text \<open>
  The body of the \<^verbatim>\<open>for f in glob.glob(name + '*')\<close> loop, over the listed names.
  A \<^verbatim>\<open>PermissionError\<close> is printed and the loop goes on; any other exception of
  \<^verbatim>\<open>os.remove\<close> leaves the loop and the function at once.
\<close>

fun remove_each :: "path list \<Rightarrow> world \<Rightarrow> (exn + unit) \<times> world" where
  "remove_each [] w = (Inr (), w)"
| "remove_each (f # fs) w =
     (case os_remove f w of
        Inr w' \<Rightarrow> remove_each fs w'
      | Inl e \<Rightarrow>
          if is_PermissionError e
          then remove_each fs
                 (print (''Error removing '' @ f @ '', continuing anyway: '' @ exn_str e) w)
          else (Inl e, w))"

definition build_fn_cleanup :: "environ \<Rightarrow> string \<Rightarrow> world \<Rightarrow> (exn + unit) \<times> world" where
  "build_fn_cleanup env name w =
     (if \<not> debug_fn_builder env then remove_each (glob_star name w) w else (Inr (), w))"

section \<open>Source synthesis\<close>

text \<open>\<^verbatim>\<open>'{}'.format(i)\<close> for an index \<open>i\<close>: its decimal digits.\<close>

definition digit_char :: "nat \<Rightarrow> char" where
  "digit_char d = char_of (48 + d)"

function str_nat :: "nat \<Rightarrow> string" where
  "str_nat n = (if n < 10 then [digit_char n] else str_nat (n div 10) @ [digit_char (n mod 10)])"
  by pat_completeness auto
termination
  by (relation "measure (\<lambda>n. n)") auto

declare str_nat.simps [simp del]

definition newline :: string where
  "newline = [CHR 0x0A]"

text \<open>
  The loop \<^verbatim>\<open>for i, data_name in enumerate(userdata_names): source_string += ...\<close>,
  with the text so far, the next index and the names still to come.
\<close>

fun add_defines :: "string \<Rightarrow> nat \<Rightarrow> string list \<Rightarrow> string" where
  "add_defines source_string i [] = source_string"
| "add_defines source_string i (data_name # rest) =
     add_defines
       (source_string @ ''#define '' @ data_name @ '' d->userdata['' @ str_nat i @ '']'' @ newline)
       (Suc i) rest"

text \<open>Lines 101 to 106 of the source: the text handed to \<^verbatim>\<open>set_source\<close>.\<close>

definition source_string :: "string list \<Rightarrow> string \<Rightarrow> string" where
  "source_string userdata_names function_string =
     add_defines (''#include <mujoco.h>'' @ newline) 0 userdata_names
       @ function_string
       @ newline @ ''uintptr_t __fun = (uintptr_t) fun;''"

section \<open>The callback build: \<^verbatim>\<open>build_callback_fn\<close>\<close>

text \<open>
  What a caller can pass as \<^verbatim>\<open>userdata_names\<close>: a list or a tuple (of names), a
  string, \<^verbatim>\<open>None\<close>, or an object of any other class, given by its \<^verbatim>\<open>str()\<close>.
\<close>

datatype pyarg =
    PyList "string list"
  | PyTuple "string list"
  | PyStr string
  | PyNone
  | PyOther string

text \<open>\<^verbatim>\<open>isinstance(x, (list, tuple))\<close>, with the items when it holds.\<close>

fun list_or_tuple :: "pyarg \<Rightarrow> string list option" where
  "list_or_tuple (PyList xs) = Some xs"
| "list_or_tuple (PyTuple xs) = Some xs"
| "list_or_tuple _ = None"

text \<open>\<^verbatim>\<open>'{}'.format(x)\<close> for the arguments that fail the \<^verbatim>\<open>isinstance\<close> test.\<close>

fun py_format :: "pyarg \<Rightarrow> string" where
  "py_format (PyStr s) = s"
| "py_format PyNone = ''None''"
| "py_format (PyOther s) = s"
| "py_format _ = []"

text \<open>A loaded extension module: the symbols of its \<^verbatim>\<open>lib\<close> object.\<close>

datatype ext_module = Ext_module (lib: "(string \<times> int) list")

text \<open>
  The collaborators that are not part of this module: the environment and platform of
  the process, the installation path, the random source behind \<^verbatim>\<open>random.choice\<close>,
  the compiler behind \<^verbatim>\<open>ffibuilder.compile\<close>, and \<^verbatim>\<open>manually_link_libraries\<close>,
  \<^verbatim>\<open>shutil.move\<close> and \<^verbatim>\<open>load_dynamic_ext\<close>. Each effectful one takes the world and
  returns it changed, together with its result or the exception it raises.
\<close>

record host =
  os_environ :: environ
  sys_platform :: string
  mujoco_path :: string
  draw :: "nat \<Rightarrow> nat"
  ffi_compile :: "string \<Rightarrow> string \<Rightarrow> string \<Rightarrow> world \<Rightarrow> (exn + path) \<times> world"
  manually_link_libraries :: "string \<Rightarrow> path \<Rightarrow> world \<Rightarrow> (exn + path) \<times> world"
  move :: "path \<Rightarrow> path \<Rightarrow> world \<Rightarrow> (exn + unit) \<times> world"
  load_dynamic_ext :: "string \<Rightarrow> path \<Rightarrow> world \<Rightarrow> (exn + ext_module) \<times> world"

definition ascii_lowercase :: string where
  "ascii_lowercase = ''abcdefghijklmnopqrstuvwxyz''"

text \<open>\<^verbatim>\<open>random.choice(seq)\<close> for a non-empty \<open>seq\<close>: one draw, reduced to an index.\<close>

definition choice :: "host \<Rightarrow> string \<Rightarrow> world \<Rightarrow> char \<times> world" where
  "choice H seq w =
     (seq ! (draw H (rng_pos w) mod length seq), w\<lparr>rng_pos := Suc (rng_pos w)\<rparr>)"

text \<open>\<^verbatim>\<open>''.join(choice(ascii_lowercase) for _ in range(n))\<close>.\<close>

fun random_letters :: "host \<Rightarrow> nat \<Rightarrow> world \<Rightarrow> string \<times> world" where
  "random_letters H 0 w = ([], w)"
| "random_letters H (Suc n) w =
     (case choice H ascii_lowercase w of
        (c, w1) \<Rightarrow> (case random_letters H n w1 of (cs, w2) \<Rightarrow> (c # cs, w2)))"

definition fresh_name :: "host \<Rightarrow> world \<Rightarrow> string \<times> world" where
  "fresh_name H w = (case random_letters H 15 w of (cs, w1) \<Rightarrow> (''_fn_'' @ cs, w1))"

text \<open>Lines 119 to 121: the relink on \<^verbatim>\<open>darwin\<close>, nothing elsewhere.\<close>

definition relink :: "host \<Rightarrow> path \<Rightarrow> world \<Rightarrow> (exn + unit) \<times> world" where
  "relink H library_path w =
     (if sys_platform H = ''darwin''
      then (case manually_link_libraries H (mujoco_path H) library_path w of
              (Inl e, w1) \<Rightarrow> (Inl e, w1)
            | (Inr fixed_library_path, w1) \<Rightarrow> move H fixed_library_path library_path w1)
      else (Inr (), w))"

text \<open>Line 125: \<^verbatim>\<open>module.lib.__fun\<close>.\<close>

definition read_fun :: "ext_module \<Rightarrow> exn + int" where
  "read_fun m =
     (case map_of (lib m) ''__fun'' of
        None \<Rightarrow> Inl (AttributeError ''__fun'')
      | Some a \<Rightarrow> Inr a)"

text \<open>
  Lines 113 to 125: what follows \<^verbatim>\<open>set_source\<close>, for a given build name. The
  compiler receives the name, the source, and the installation path from which
  \<^verbatim>\<open>set_source\<close> derives the include and library directories. \<^verbatim>\<open>FFI()\<close>,
  \<^verbatim>\<open>cdef\<close> and \<^verbatim>\<open>set_source\<close> only configure the builder object and touch nothing
  of the world. Only the call of the compiler sits inside the \<^verbatim>\<open>try\<close>.
\<close>

definition compile_and_load :: "host \<Rightarrow> string \<Rightarrow> string \<Rightarrow> world \<Rightarrow> (exn + int) \<times> world" where
  "compile_and_load H name source w =
     (case ffi_compile H name source (mujoco_path H) w of
        (Inl e, w1) \<Rightarrow>
          (case build_fn_cleanup (os_environ H) name w1 of
             (Inl e', w2) \<Rightarrow> (Inl e', w2)
           | (Inr _, w2) \<Rightarrow> (Inl e, w2))
      | (Inr library_path, w1) \<Rightarrow>
          (case relink H library_path w1 of
             (Inl e, w2) \<Rightarrow> (Inl e, w2)
           | (Inr _, w2) \<Rightarrow>
               (case load_dynamic_ext H name library_path w2 of
                  (Inl e, w3) \<Rightarrow> (Inl e, w3)
                | (Inr m, w3) \<Rightarrow>
                    (case build_fn_cleanup (os_environ H) name w3 of
                       (Inl e, w4) \<Rightarrow> (Inl e, w4)
                     | (Inr _, w4) \<Rightarrow> (read_fun m, w4)))))"

definition build_callback_fn :: "host \<Rightarrow> string \<Rightarrow> pyarg \<Rightarrow> world \<Rightarrow> (exn + int) \<times> world" where
  "build_callback_fn H function_string userdata_names w =
     (case list_or_tuple userdata_names of
        None \<Rightarrow> (Inl (AssertionError (''invalid userdata_names: '' @ py_format userdata_names)), w)
      | Some names \<Rightarrow>
          (case fresh_name H w of
             (name, w0) \<Rightarrow> compile_and_load H name (source_string names function_string) w0))"

section \<open>The warning translators and the scope \<^verbatim>\<open>ignore_mujoco_warnings\<close>\<close>

text \<open>\<^verbatim>\<open>pat in s\<close> on strings: \<open>pat\<close> occurs in \<open>s\<close> as a contiguous piece.\<close>

fun contains :: "string \<Rightarrow> string \<Rightarrow> bool" where
  "contains pat [] = (pat = [])"
| "contains pat (c # s) = (prefix pat (c # s) \<or> contains pat s)"

text \<open>
  \<^verbatim>\<open>warn_bytes.decode()\<close> belongs to the Python runtime; \<open>decode\<close> is its outcome, the
  text or a \<^verbatim>\<open>UnicodeDecodeError\<close>.
\<close>

definition user_warning_raise_exception :: "(string \<Rightarrow> exn + string) \<Rightarrow> string \<Rightarrow> exn + unit" where
  "user_warning_raise_exception decode warn_bytes =
     (case decode warn_bytes of
        Inl e \<Rightarrow> Inl e
      | Inr warn \<Rightarrow>
          if contains ''Pre-allocated constraint buffer is full'' warn
          then Inl (MujocoException (warn @ ''Increase njmax in mujoco XML''))
          else if contains ''Pre-allocated contact buffer is full'' warn
          then Inl (MujocoException (warn @ ''Increase njconmax in mujoco XML''))
          else if contains ''Unknown warning type'' warn
          then Inl (MujocoException (warn @ ''Check for NaN in simulation.''))
          else Inl (MujocoException (''Got MuJoCo Warning: '' @ warn)))"

definition user_warning_ignore_exception :: "string \<Rightarrow> exn + unit" where
  "user_warning_ignore_exception warn_bytes = Inr ()"

text \<open>
  An instance of the class \<^verbatim>\<open>ignore_mujoco_warnings\<close>: its one attribute, unset until
  \<^verbatim>\<open>__enter__\<close> assigns it.
\<close>

record ignore_mujoco_warnings =
  prev_user_warning :: "translator option"

definition ignore_mujoco_warnings_enter ::
  "ignore_mujoco_warnings \<Rightarrow> world \<Rightarrow> ignore_mujoco_warnings \<times> world" where
  "ignore_mujoco_warnings_enter self w =
     (self\<lparr>prev_user_warning := Some (warning_callback w)\<rparr>,
      w\<lparr>warning_callback := User_warning_ignore_exception\<rparr>)"

definition ignore_mujoco_warnings_exit ::
  "ignore_mujoco_warnings \<Rightarrow> world \<Rightarrow> (exn + unit) \<times> world" where
  "ignore_mujoco_warnings_exit self w =
     (case prev_user_warning self of
        None \<Rightarrow> (Inl (AttributeError ''prev_user_warning''), w)
      | Some t \<Rightarrow> (Inr (), w\<lparr>warning_callback := t\<rparr>))"

text \<open>
  The statement \<^verbatim>\<open>with ignore_mujoco_warnings(): body\<close>. A fresh instance is made and
  entered, the body runs, and \<^verbatim>\<open>__exit__\<close> runs whether the body returned or raised.
  \<^verbatim>\<open>__exit__\<close> returns \<^verbatim>\<open>None\<close>, so an exception of the body is not swallowed; an
  exception of \<^verbatim>\<open>__exit__\<close> itself would replace the body's outcome.
\<close>

definition with_ignore_mujoco_warnings ::
  "(world \<Rightarrow> (exn + 'a) \<times> world) \<Rightarrow> world \<Rightarrow> (exn + 'a) \<times> world" where
  "with_ignore_mujoco_warnings body w =
     (case ignore_mujoco_warnings_enter \<lparr>prev_user_warning = None\<rparr> w of
        (self, w1) \<Rightarrow>
          (case body w1 of
             (r, w2) \<Rightarrow>
               (case ignore_mujoco_warnings_exit self w2 of
                  (Inl e, w3) \<Rightarrow> (Inl e, w3)
                | (Inr _, w3) \<Rightarrow> (r, w3))))"

section \<open>The module build: \<^verbatim>\<open>compile_with_multiple_attempts\<close>\<close>

text \<open>
  The calls the function makes to the outside, in the order it makes them, are kept as
  a trace. What the outside answers is given per attempt: whether
  \<^verbatim>\<open>subprocess.check_call\<close> raises, what \<^verbatim>\<open>glob.glob(so_path)\<close> lists, and what
  \<^verbatim>\<open>load_dynamic_ext\<close> returns or raises. \<^verbatim>\<open>remove_mujoco_build\<close> returns normally.
\<close>

datatype call =
    Check_call nat
  | Glob_so nat
  | Load_dynamic_ext string path
  | Remove_mujoco_build

record build_env =
  so_path :: path
  check_call :: "nat \<Rightarrow> exn option"
  so_files :: "nat \<Rightarrow> path list"
  load_ext :: "nat \<Rightarrow> string \<Rightarrow> path \<Rightarrow> exn + ext_module"

text \<open>\<^verbatim>\<open>except (CalledProcessError, TimeoutError, ImportError) as _\<close>.\<close>

fun caught :: "exn \<Rightarrow> bool" where
  "caught (CalledProcessError _) = True"
| "caught TimeoutError = True"
| "caught (ImportError _) = True"
| "caught _ = False"

text \<open>The body of the \<^verbatim>\<open>try\<close>, lines 187 to 193, in attempt \<open>attempt\<close>.\<close>

definition try_build :: "build_env \<Rightarrow> nat \<Rightarrow> call list \<Rightarrow> (exn + ext_module) \<times> call list" where
  "try_build E attempt tr =
     (case check_call E attempt of
        Some e \<Rightarrow> (Inl e, tr @ [Check_call attempt])
      | None \<Rightarrow>
          (let cext_so_path = so_files E attempt;
               tr1 = tr @ [Check_call attempt, Glob_so attempt]
           in if length cext_so_path \<noteq> 1
              then (Inl (AssertionError (''Expecting only one .so file under '' @ so_path E)), tr1)
              else (load_ext E attempt ''cymj'' (cext_so_path ! 0),
                    tr1 @ [Load_dynamic_ext ''cymj'' (cext_so_path ! 0)])))"

text \<open>The loop \<^verbatim>\<open>for attempt in range(3)\<close>, over the attempts still to make.\<close>

fun attempts_loop :: "build_env \<Rightarrow> nat list \<Rightarrow> call list \<Rightarrow> (exn + ext_module) \<times> call list" where
  "attempts_loop E [] tr = (Inl (Exception ''Failed to compile mujoco_py.''), tr)"
| "attempts_loop E (attempt # rest) tr =
     (case try_build E attempt tr of
        (Inr cymj, tr1) \<Rightarrow> (Inr cymj, tr1)
      | (Inl e, tr1) \<Rightarrow>
          if caught e then attempts_loop E rest (tr1 @ [Remove_mujoco_build])
          else (Inl e, tr1))"

definition compile_with_multiple_attempts :: "build_env \<Rightarrow> (exn + ext_module) \<times> call list" where
  "compile_with_multiple_attempts E = attempts_loop E [0, 1, 2] []"

section \<open>The specification's vocabulary\<close>

text \<open>
  The specification speaks of a substitution directive that maps an alias to a slot of
  the user-data array, and of an ordered list of warning rules of which the first match
  wins. These two definitions follow its words; the theorems compare them with the code.
\<close>

definition substitution_directive :: "string \<Rightarrow> nat \<Rightarrow> string" where
  "substitution_directive alias i =
     ''#define '' @ alias @ '' d->userdata['' @ str_nat i @ '']'' @ newline"

text \<open>The number that a string of decimal digits denotes.\<close>

definition decimal_value :: "string \<Rightarrow> nat" where
  "decimal_value s = foldl (\<lambda>n c. 10 * n + (of_char c - 48)) 0 s"

definition warning_rules :: "(string \<times> string) list" where
  "warning_rules =
     [(''Pre-allocated constraint buffer is full'', ''Increase njmax in mujoco XML''),
      (''Pre-allocated contact buffer is full'', ''Increase njconmax in mujoco XML''),
      (''Unknown warning type'', ''Check for NaN in simulation.'')]"

fun first_match :: "(string \<times> string) list \<Rightarrow> string \<Rightarrow> (string \<times> string) option" where
  "first_match [] warn = None"
| "first_match ((pat, hint) # rules) warn =
     (if contains pat warn then Some (pat, hint) else first_match rules warn)"

text \<open>
  What the janitor meets on its way through the listed entries. An entry is
  \<open>refused\<close> when its removal raises \<^verbatim>\<open>PermissionError\<close>, which the janitor
  tolerates and reports with the line \<open>refusal_report\<close>; it is \<open>blocking\<close> when its
  removal raises anything else, which ends the janitor. \<open>reached\<close> are the entries
  before the first blocking one, \<open>first_blocking\<close> is the exception that the first
  blocking entry raises.
\<close>

definition refused :: "world \<Rightarrow> path \<Rightarrow> bool" where
  "refused w f =
     (case map_of (remove_fails w) f of Some e \<Rightarrow> is_PermissionError e | None \<Rightarrow> False)"

definition blocking :: "world \<Rightarrow> path \<Rightarrow> bool" where
  "blocking w f =
     (case map_of (remove_fails w) f of Some e \<Rightarrow> \<not> is_PermissionError e | None \<Rightarrow> False)"

definition reached :: "world \<Rightarrow> path list \<Rightarrow> path list" where
  "reached w fs = takeWhile (\<lambda>f. \<not> blocking w f) fs"

definition first_blocking :: "world \<Rightarrow> path list \<Rightarrow> exn option" where
  "first_blocking w fs =
     (case find (blocking w) fs of None \<Rightarrow> None | Some f \<Rightarrow> map_of (remove_fails w) f)"

definition refusal_report :: "world \<Rightarrow> path \<Rightarrow> string" where
  "refusal_report w f =
     ''Error removing '' @ f @ '', continuing anyway: ''
       @ (case map_of (remove_fails w) f of Some e \<Rightarrow> exn_str e | None \<Rightarrow> [])"

text \<open>The attempts and the workspace cleanups that a trace of calls records.\<close>

fun is_check_call :: "call \<Rightarrow> bool" where
  "is_check_call (Check_call _) = True"
| "is_check_call _ = False"

definition attempts_made :: "call list \<Rightarrow> nat" where
  "attempts_made tr = length (filter is_check_call tr)"

definition cleanups_made :: "call list \<Rightarrow> nat" where
  "cleanups_made tr = count_list tr Remove_mujoco_build"


section \<open>Example hosts and worlds\<close>

text \<open>
  Small collaborators on which the theorems are run. The toy compiler writes a
  \<^verbatim>\<open>.c\<close> file and stops with an error when the source has an \<^verbatim>\<open>#error\<close> line;
  otherwise it also writes an object file and the library. The toy loader maps the
  library and exports \<^verbatim>\<open>__fun\<close>.
\<close>

definition toy_compile :: "string \<Rightarrow> string \<Rightarrow> string \<Rightarrow> world \<Rightarrow> (exn + path) \<times> world" where
  "toy_compile name source mjpath w =
     (if contains ''#error'' source
      then (Inl (OtherError ''VerificationError''), w\<lparr>files := files w @ [name @ ''.c'']\<rparr>)
      else (Inr (name @ ''.so''),
            w\<lparr>files := files w @ [name @ ''.c'', name @ ''.o'', name @ ''.so'']\<rparr>))"

definition toy_relink :: "string \<Rightarrow> path \<Rightarrow> world \<Rightarrow> (exn + path) \<times> world" where
  "toy_relink mjpath library_path w =
     (Inr (library_path @ ''.fixed''), w\<lparr>files := files w @ [library_path @ ''.fixed'']\<rparr>)"

definition toy_move :: "path \<Rightarrow> path \<Rightarrow> world \<Rightarrow> (exn + unit) \<times> world" where
  "toy_move src dst w =
     (if src \<in> set (files w)
      then (Inr (), w\<lparr>files := removeAll src (removeAll dst (files w)) @ [dst]\<rparr>)
      else (Inl (FileNotFoundError src), w))"

definition toy_load :: "string \<Rightarrow> path \<Rightarrow> world \<Rightarrow> (exn + ext_module) \<times> world" where
  "toy_load name library_path w =
     (if library_path \<in> set (files w)
      then (Inr (Ext_module [(''__fun'', 4096)]), w)
      else (Inl (ImportError name), w))"

text \<open>A loader that finds the library malformed.\<close>

definition failing_load :: "string \<Rightarrow> path \<Rightarrow> world \<Rightarrow> (exn + ext_module) \<times> world" where
  "failing_load name library_path w = (Inl (ImportError name), w)"

text \<open>
  A loader on a system that keeps a mapped library locked, the case the comment in
  \<^verbatim>\<open>build_fn_cleanup\<close> describes.
\<close>

definition locking_load :: "string \<Rightarrow> path \<Rightarrow> world \<Rightarrow> (exn + ext_module) \<times> world" where
  "locking_load name library_path w =
     (Inr (Ext_module [(''__fun'', 4096)]),
      w\<lparr>remove_fails :=
          (library_path, PermissionError ''[WinError 5] Access is denied'') # remove_fails w\<rparr>)"

text \<open>A compiler that fails while another process still holds its partial output.\<close>

definition held_compile :: "string \<Rightarrow> string \<Rightarrow> string \<Rightarrow> world \<Rightarrow> (exn + path) \<times> world" where
  "held_compile name source mjpath w =
     (Inl (OtherError ''VerificationError''),
      w\<lparr>files := files w @ [name @ ''.c''],
        remove_fails :=
          (name @ ''.c'', PermissionError ''[WinError 32] File in use'') # remove_fails w\<rparr>)"

definition toy_host :: host where
  "toy_host =
     \<lparr>os_environ = [], sys_platform = ''linux'', mujoco_path = ''/opt/mujoco200'',
      draw = (\<lambda>k. k), ffi_compile = toy_compile, manually_link_libraries = toy_relink,
      move = toy_move, load_dynamic_ext = toy_load\<rparr>"

definition toy_world :: world where
  "toy_world =
     \<lparr>files = [''model.xml''], remove_fails = [], stdout = [], rng_pos = 0,
      warning_callback = User_warning_raise_exception\<rparr>"

text \<open>The build name that \<open>toy_host\<close> draws first.\<close>

definition toy_name :: string where
  "toy_name = ''_fn_abcdefghijklmno''"

definition locking_host :: host where
  "locking_host = toy_host\<lparr>load_dynamic_ext := locking_load\<rparr>"

definition unloadable_host :: host where
  "unloadable_host = toy_host\<lparr>load_dynamic_ext := failing_load\<rparr>"

definition held_host :: host where
  "held_host = toy_host\<lparr>ffi_compile := held_compile\<rparr>"

text \<open>A world in which the library of an earlier build is still mapped and locked.\<close>

definition busy_world :: world where
  "busy_world =
     \<lparr>files = [''model.xml'', ''_fn_abcdefghijklmno.c'', ''_fn_abcdefghijklmno.so''],
      remove_fails =
        [(''_fn_abcdefghijklmno.so'', PermissionError ''[WinError 5] Access is denied'')],
      stdout = [], rng_pos = 15, warning_callback = User_warning_raise_exception\<rparr>"

text \<open>The world that \<open>held_compile\<close> leaves behind on \<open>toy_world\<close>.\<close>

definition held_world :: world where
  "held_world =
     \<lparr>files = [''model.xml'', ''_fn_abcdefghijklmno.c''],
      remove_fails = [(''_fn_abcdefghijklmno.c'', PermissionError ''[WinError 32] File in use'')],
      stdout = [], rng_pos = 15, warning_callback = User_warning_raise_exception\<rparr>"



text \<open>The world right after the toy compiler has built: three files, none protected.\<close>

definition toy_world_after_build :: world where
  "toy_world_after_build =
     \<lparr>files = [''model.xml'', ''_fn_abcdefghijklmno.c'', ''_fn_abcdefghijklmno.o'',
               ''_fn_abcdefghijklmno.so''],
      remove_fails = [], stdout = [], rng_pos = 15,
      warning_callback = User_warning_raise_exception\<rparr>"

text \<open>
  A world in which the compiler has also left a directory of debug symbols, listed
  between the source file and the library.
\<close>

definition cluttered_world :: world where
  "cluttered_world =
     \<lparr>files = [''model.xml'', ''_fn_abcdefghijklmno.c'', ''_fn_abcdefghijklmno.dSYM'',
               ''_fn_abcdefghijklmno.so''],
      remove_fails =
        [(''_fn_abcdefghijklmno.dSYM'', IsADirectoryError ''_fn_abcdefghijklmno.dSYM'')],
      stdout = [], rng_pos = 15, warning_callback = User_warning_raise_exception\<rparr>"

text \<open>A compiler that fails and leaves such a directory next to its partial output.\<close>

definition cluttering_compile :: "string \<Rightarrow> string \<Rightarrow> string \<Rightarrow> world \<Rightarrow> (exn + path) \<times> world" where
  "cluttering_compile name source mjpath w =
     (Inl (OtherError ''VerificationError''),
      w\<lparr>files := files w @ [name @ ''.dSYM'', name @ ''.c''],
        remove_fails := (name @ ''.dSYM'', IsADirectoryError (name @ ''.dSYM'')) # remove_fails w\<rparr>)"

definition cluttering_host :: host where
  "cluttering_host = toy_host\<lparr>ffi_compile := cluttering_compile\<rparr>"

text \<open>A build step that times out in every attempt, and one that fails twice.\<close>

definition always_times_out :: build_env where
  "always_times_out =
     \<lparr>so_path = ''mujoco_py/generated/*.so'',
      check_call = (\<lambda>attempt. Some TimeoutExpired),
      so_files = (\<lambda>attempt. []),
      load_ext = (\<lambda>attempt name p. Inl (ImportError name))\<rparr>"

definition fails_twice :: build_env where
  "fails_twice =
     \<lparr>so_path = ''mujoco_py/generated/*.so'',
      check_call = (\<lambda>attempt. if attempt < 2 then Some (CalledProcessError 1) else None),
      so_files = (\<lambda>attempt. [''mujoco_py/generated/cymj.so'']),
      load_ext = (\<lambda>attempt name p. Inr (Ext_module [(''set_warning_callback'', 1)]))\<rparr>"

text \<open>\<^verbatim>\<open>bytes.decode\<close> on ASCII input, where it returns the bytes as text.\<close>

definition ascii_decode :: "string \<Rightarrow> exn + string" where
  "ascii_decode bs = (if \<forall>c \<in> set bs. of_char c < (128::nat) then Inr bs else Inl UnicodeDecodeError)"

section \<open>Auxiliary facts\<close>

subsection \<open>Substrings\<close>

lemma contains_iff: "contains pat s \<longleftrightarrow> (\<exists>u v. s = u @ pat @ v)"
proof (induction s)
  case Nil
  then show ?case by auto
next
  case (Cons c s)
  show ?case
  proof
    assume "contains pat (c # s)"
    then consider "prefix pat (c # s)" | "contains pat s" by auto
    then show "\<exists>u v. c # s = u @ pat @ v"
    proof cases
      case 1
      then obtain v where "c # s = pat @ v" by (auto simp: prefix_def)
      then have "c # s = [] @ pat @ v" by simp
      then show ?thesis by blast
    next
      case 2
      with Cons obtain u v where "s = u @ pat @ v" by blast
      then have "c # s = (c # u) @ pat @ v" by simp
      then show ?thesis by blast
    qed
  next
    assume "\<exists>u v. c # s = u @ pat @ v"
    then obtain u v where uv: "c # s = u @ pat @ v" by blast
    show "contains pat (c # s)"
    proof (cases u)
      case Nil
      with uv have "prefix pat (c # s)" by (simp add: prefix_def)
      then show ?thesis by simp
    next
      case (Cons a u')
      with uv have "s = u' @ pat @ v" by simp
      with Cons.IH have "contains pat s" by blast
      then show ?thesis by simp
    qed
  qed
qed

lemma contains_left: "contains s (s @ t)"
proof -
  have "s @ t = [] @ s @ t" by simp
  then show ?thesis unfolding contains_iff by blast
qed

lemma contains_right: "contains t (s @ t)"
proof -
  have "s @ t = s @ t @ []" by simp
  then show ?thesis unfolding contains_iff by blast
qed

declare contains.simps [simp del]

subsection \<open>The removal loop\<close>

text \<open>The vocabulary of the janitor looks at a world through \<open>remove_fails\<close> only.\<close>

lemma same_fails:
  assumes "remove_fails w' = remove_fails w"
  shows "refused w' = refused w" and "blocking w' = blocking w"
    and "reached w' = reached w" and "first_blocking w' = first_blocking w"
    and "refusal_report w' = refusal_report w"
proof -
  show b: "blocking w' = blocking w" by (simp add: fun_eq_iff blocking_def assms)
  show "refused w' = refused w" by (simp add: fun_eq_iff refused_def assms)
  show "reached w' = reached w" by (simp add: fun_eq_iff reached_def b)
  show "first_blocking w' = first_blocking w"
    unfolding fun_eq_iff first_blocking_def b assms by simp
  show "refusal_report w' = refusal_report w"
    unfolding fun_eq_iff refusal_report_def assms by simp
qed

lemma remove_each_free:
  "f \<in> set (files w) \<Longrightarrow> map_of (remove_fails w) f = None \<Longrightarrow>
   remove_each (f # fs) w = remove_each fs (w\<lparr>files := removeAll f (files w)\<rparr>)"
  by (simp add: os_remove_def)

lemma remove_each_refused:
  "f \<in> set (files w) \<Longrightarrow> map_of (remove_fails w) f = Some e \<Longrightarrow> is_PermissionError e \<Longrightarrow>
   remove_each (f # fs) w = remove_each fs (print (refusal_report w f) w)"
  by (simp add: os_remove_def refusal_report_def)

lemma remove_each_blocking:
  "f \<in> set (files w) \<Longrightarrow> map_of (remove_fails w) f = Some e \<Longrightarrow> \<not> is_PermissionError e \<Longrightarrow>
   remove_each (f # fs) w = (Inl e, w)"
  by (simp add: os_remove_def)

lemma walk_free:
  assumes "map_of (remove_fails w) f = None"
  shows "\<not> blocking w f" and "\<not> refused w f"
    and "reached w (f # fs) = f # reached w fs"
    and "first_blocking w (f # fs) = first_blocking w fs"
  using assms by (simp_all add: blocking_def refused_def reached_def first_blocking_def)

lemma walk_refused:
  assumes "map_of (remove_fails w) f = Some e" and "is_PermissionError e"
  shows "\<not> blocking w f" and "refused w f"
    and "reached w (f # fs) = f # reached w fs"
    and "first_blocking w (f # fs) = first_blocking w fs"
  using assms by (simp_all add: blocking_def refused_def reached_def first_blocking_def)

lemma walk_blocking:
  assumes "map_of (remove_fails w) f = Some e" and "\<not> is_PermissionError e"
  shows "blocking w f" and "reached w (f # fs) = []"
    and "first_blocking w (f # fs) = Some e"
  using assms by (simp_all add: blocking_def reached_def first_blocking_def)

text \<open>
  The whole effect of the loop: the entries it reaches are removed unless refused, each
  refused one is reported, and the loop ends with the exception of the first blocking
  entry if there is one.
\<close>

lemma remove_each_effect:
  "distinct fs \<Longrightarrow> set fs \<subseteq> set (files w) \<Longrightarrow>
   remove_each fs w =
     (case first_blocking w fs of None \<Rightarrow> Inr () | Some e \<Rightarrow> Inl e,
      w\<lparr>files := filter (\<lambda>g. g \<notin> set (reached w fs) \<or> refused w g) (files w),
        stdout := stdout w @ map (refusal_report w) (filter (refused w) (reached w fs))\<rparr>)"
proof (induction fs arbitrary: w)
  case Nil
  then show ?case by (simp add: reached_def first_blocking_def)
next
  case (Cons f fs)
  from Cons.prems have f: "f \<in> set (files w)" and d: "distinct fs" and nf: "f \<notin> set fs"
    and sub: "set fs \<subseteq> set (files w)" by auto
  show ?case
  proof (cases "map_of (remove_fails w) f")
    case None
    let ?w' = "w\<lparr>files := removeAll f (files w)\<rparr>"
    have rf: "remove_fails ?w' = remove_fails w" by simp
    have s: "set fs \<subseteq> set (files ?w')" using sub nf by auto
    note walk = walk_free [OF None]
    have fl: "filter (\<lambda>g. g \<notin> set (reached w fs) \<or> refused w g) (removeAll f (files w)) =
              filter (\<lambda>g. g \<notin> set (f # reached w fs) \<or> refused w g) (files w)"
      using walk(2) by (auto simp: removeAll_filter_not_eq intro!: filter_cong)
    have "remove_each (f # fs) w = remove_each fs ?w'" by (rule remove_each_free [OF f None])
    also have "\<dots> =
      (case first_blocking w fs of None \<Rightarrow> Inr () | Some e \<Rightarrow> Inl e,
       ?w'\<lparr>files := filter (\<lambda>g. g \<notin> set (reached w fs) \<or> refused w g) (files ?w'),
         stdout := stdout ?w' @ map (refusal_report w) (filter (refused w) (reached w fs))\<rparr>)"
      using Cons.IH [OF d s] unfolding same_fails [OF rf] .
    also have "\<dots> =
      (case first_blocking w (f # fs) of None \<Rightarrow> Inr () | Some e \<Rightarrow> Inl e,
       w\<lparr>files := filter (\<lambda>g. g \<notin> set (reached w (f # fs)) \<or> refused w g) (files w),
         stdout := stdout w @ map (refusal_report w) (filter (refused w) (reached w (f # fs)))\<rparr>)"
      unfolding walk(3) walk(4) using walk(2) fl by simp
    finally show ?thesis .
  next
    case (Some e)
    show ?thesis
    proof (cases "is_PermissionError e")
      case True
      let ?w' = "print (refusal_report w f) w"
      have rf: "remove_fails ?w' = remove_fails w" by (simp add: print_def)
      have s: "set fs \<subseteq> set (files ?w')" using sub by (simp add: print_def)
      note walk = walk_refused [OF Some True]
      have fl: "filter (\<lambda>g. g \<notin> set (reached w fs) \<or> refused w g) (files w) =
                filter (\<lambda>g. g \<notin> set (f # reached w fs) \<or> refused w g) (files w)"
        using walk(2) by (auto intro!: filter_cong)
      have "remove_each (f # fs) w = remove_each fs ?w'"
        by (rule remove_each_refused [OF f Some True])
      also have "\<dots> =
        (case first_blocking w fs of None \<Rightarrow> Inr () | Some e \<Rightarrow> Inl e,
         ?w'\<lparr>files := filter (\<lambda>g. g \<notin> set (reached w fs) \<or> refused w g) (files ?w'),
           stdout := stdout ?w' @ map (refusal_report w) (filter (refused w) (reached w fs))\<rparr>)"
        using Cons.IH [OF d s] unfolding same_fails [OF rf] .
      also have "\<dots> =
        (case first_blocking w (f # fs) of None \<Rightarrow> Inr () | Some e \<Rightarrow> Inl e,
         w\<lparr>files := filter (\<lambda>g. g \<notin> set (reached w (f # fs)) \<or> refused w g) (files w),
           stdout := stdout w @ map (refusal_report w) (filter (refused w) (reached w (f # fs)))\<rparr>)"
        unfolding walk(3) walk(4) using walk(2) fl by (simp add: print_def)
      finally show ?thesis .
    next
      case False
      note walk = walk_blocking [OF Some False]
      have "remove_each (f # fs) w = (Inl e, w)" by (rule remove_each_blocking [OF f Some False])
      also have "\<dots> =
        (case first_blocking w (f # fs) of None \<Rightarrow> Inr () | Some e \<Rightarrow> Inl e,
         w\<lparr>files := filter (\<lambda>g. g \<notin> set (reached w (f # fs)) \<or> refused w g) (files w),
           stdout := stdout w @ map (refusal_report w) (filter (refused w) (reached w (f # fs)))\<rparr>)"
        unfolding walk(2) walk(3) by simp
      finally show ?thesis .
    qed
  qed
qed

lemma first_blocking_None_iff:
  "first_blocking w fs = None \<longleftrightarrow> (\<forall>f \<in> set fs. \<not> blocking w f)"
proof (induction fs)
  case Nil
  then show ?case by (simp add: first_blocking_def)
next
  case (Cons f fs)
  show ?case
  proof (cases "map_of (remove_fails w) f")
    case None
    from walk_free [OF None] Cons.IH show ?thesis by simp
  next
    case (Some e)
    show ?thesis
    proof (cases "is_PermissionError e")
      case True
      from walk_refused [OF Some True] Cons.IH show ?thesis by simp
    next
      case False
      from walk_blocking [OF Some False] show ?thesis by simp
    qed
  qed
qed

lemma reached_all: "first_blocking w fs = None \<Longrightarrow> reached w fs = fs"
  by (simp add: first_blocking_None_iff reached_def)

subsection \<open>The janitor\<close>

lemma glob_star_distinct: "distinct (glob_star name w)"
  by (simp add: glob_star_def)

lemma glob_star_set: "set (glob_star name w) = {f \<in> set (files w). prefix name f}"
  by (auto simp: glob_star_def)

lemma debug_fn_builder_iff:
  "debug_fn_builder env \<longleftrightarrow> map_of env ''MUJOCO_PY_DEBUG_FN_BUILDER'' \<notin> {None, Some []}"
  by (simp add: debug_fn_builder_def split: option.splits)

lemma cleanup_debug: "debug_fn_builder env \<Longrightarrow> build_fn_cleanup env name w = (Inr (), w)"
  by (simp add: build_fn_cleanup_def)

lemma cleanup_effect:
  assumes "\<not> debug_fn_builder env"
  shows "build_fn_cleanup env name w =
     (case first_blocking w (glob_star name w) of None \<Rightarrow> Inr () | Some e \<Rightarrow> Inl e,
      w\<lparr>files := filter (\<lambda>f. f \<notin> set (reached w (glob_star name w)) \<or> refused w f) (files w),
        stdout := stdout w @
          map (refusal_report w) (filter (refused w) (reached w (glob_star name w)))\<rparr>)"
proof -
  have "remove_each (glob_star name w) w =
     (case first_blocking w (glob_star name w) of None \<Rightarrow> Inr () | Some e \<Rightarrow> Inl e,
      w\<lparr>files := filter (\<lambda>f. f \<notin> set (reached w (glob_star name w)) \<or> refused w f) (files w),
        stdout := stdout w @
          map (refusal_report w) (filter (refused w) (reached w (glob_star name w)))\<rparr>)"
    by (rule remove_each_effect) (simp_all add: glob_star_distinct glob_star_set)
  with assms show ?thesis by (simp add: build_fn_cleanup_def)
qed

text \<open>When no listed entry is blocking, the janitor returns and only refused files stay.\<close>

lemma cleanup_quiet:
  assumes "\<not> debug_fn_builder env" and "first_blocking w (glob_star name w) = None"
  shows "build_fn_cleanup env name w =
     (Inr (),
      w\<lparr>files := filter (\<lambda>f. \<not> prefix name f \<or> refused w f) (files w),
        stdout := stdout w @ map (refusal_report w) (filter (refused w) (glob_star name w))\<rparr>)"
proof -
  have "filter (\<lambda>f. f \<notin> set (glob_star name w) \<or> refused w f) (files w) =
        filter (\<lambda>f. \<not> prefix name f \<or> refused w f) (files w)"
    by (rule filter_cong) (auto simp: glob_star_set)
  then show ?thesis
    unfolding cleanup_effect [OF assms(1)] by (simp add: assms(2) reached_all)
qed

lemma cleanup_blocked:
  assumes "\<not> debug_fn_builder env" and "first_blocking w (glob_star name w) = Some e"
  shows "fst (build_fn_cleanup env name w) = Inl e"
  unfolding cleanup_effect [OF assms(1)] by (simp add: assms(2))

lemma cleanup_fails_same: "remove_fails (snd (build_fn_cleanup env name w)) = remove_fails w"
proof (cases "debug_fn_builder env")
  case True
  then show ?thesis by (simp add: cleanup_debug)
next
  case False
  then show ?thesis by (simp add: cleanup_effect)
qed


subsection \<open>Source synthesis\<close>

lemma add_defines_closed:
  "add_defines src i names =
     src @ concat (map (\<lambda>k. substitution_directive (names ! k) (i + k)) [0..<length names])"
proof (induction names arbitrary: src i)
  case Nil
  then show ?case by simp
next
  case (Cons n rest)
  have "map (\<lambda>k. substitution_directive ((n # rest) ! k) (i + k)) [0..<length (n # rest)] =
        substitution_directive n i #
        map (\<lambda>k. substitution_directive (rest ! k) (Suc i + k)) [0..<length rest]"
    by (simp add: map_upt_Suc del: upt_Suc)
  then show ?case
    by (simp add: Cons.IH substitution_directive_def del: upt_Suc)
qed

text \<open>
  The index written into a directive is the decimal numeral of the position, so
  different positions name different slots.
\<close>

lemma decimal_value_snoc:
  "decimal_value (s @ [c]) = 10 * decimal_value s + (of_char c - 48)"
  by (simp add: decimal_value_def)

lemma decimal_value_single: "decimal_value [c] = of_char c - 48"
  by (simp add: decimal_value_def)

lemma str_nat_small: "n < 10 \<Longrightarrow> str_nat n = [digit_char n]"
  by (subst str_nat.simps) simp

lemma str_nat_large:
  "\<not> n < 10 \<Longrightarrow> str_nat n = str_nat (n div 10) @ [digit_char (n mod 10)]"
  by (subst str_nat.simps) simp

lemma digit_char_value: "d < 10 \<Longrightarrow> of_char (digit_char d) - 48 = d"
  by (simp add: digit_char_def)

lemma str_nat_decimal: "decimal_value (str_nat n) = n"
proof (induction n rule: str_nat.induct)
  case (1 n)
  show ?case
  proof (cases "n < 10")
    case True
    have "decimal_value (str_nat n) = of_char (digit_char n) - 48"
      unfolding str_nat_small [OF True] by (rule decimal_value_single)
    also have "\<dots> = n" by (rule digit_char_value [OF True])
    finally show ?thesis .
  next
    case False
    have m: "n mod 10 < 10" by simp
    have "decimal_value (str_nat n) =
          10 * decimal_value (str_nat (n div 10)) + (of_char (digit_char (n mod 10)) - 48)"
      unfolding str_nat_large [OF False] by (rule decimal_value_snoc)
    also have "\<dots> = 10 * (n div 10) + n mod 10"
      unfolding "1.IH" [OF False] digit_char_value [OF m] by (rule refl)
    also have "\<dots> = n" by simp
    finally show ?thesis .
  qed
qed

lemma str_nat_inj:
  assumes "str_nat m = str_nat n"
  shows "m = n"
proof -
  from assms have "decimal_value (str_nat m) = decimal_value (str_nat n)" by (rule arg_cong)
  then show ?thesis by (simp only: str_nat_decimal)
qed

subsection \<open>The steps of the callback build\<close>

lemma compile_and_load_failure:
  assumes "ffi_compile H name src (mujoco_path H) w0 = (Inl e, w1)"
  shows "compile_and_load H name src w0 =
         (case fst (build_fn_cleanup (os_environ H) name w1) of
            Inl e' \<Rightarrow> Inl e' | Inr u \<Rightarrow> Inl e,
          snd (build_fn_cleanup (os_environ H) name w1))"
  by (cases "build_fn_cleanup (os_environ H) name w1")
     (simp add: compile_and_load_def assms split: sum.splits)

lemma compile_and_load_success:
  assumes "ffi_compile H name src (mujoco_path H) w0 = (Inr library_path, w1)"
    and "relink H library_path w1 = (Inr (), w2)"
    and "load_dynamic_ext H name library_path w2 = (Inr m, w3)"
  shows "compile_and_load H name src w0 =
         (case fst (build_fn_cleanup (os_environ H) name w3) of
            Inl e' \<Rightarrow> Inl e' | Inr u \<Rightarrow> read_fun m,
          snd (build_fn_cleanup (os_environ H) name w3))"
  by (cases "build_fn_cleanup (os_environ H) name w3")
     (simp add: compile_and_load_def assms split: sum.splits)

lemma compile_and_load_relink_failure:
  assumes "ffi_compile H name src (mujoco_path H) w0 = (Inr library_path, w1)"
    and "relink H library_path w1 = (Inl e, w2)"
  shows "compile_and_load H name src w0 = (Inl e, w2)"
  by (simp add: compile_and_load_def assms)

lemma compile_and_load_loader_failure:
  assumes "ffi_compile H name src (mujoco_path H) w0 = (Inr library_path, w1)"
    and "relink H library_path w1 = (Inr (), w2)"
    and "load_dynamic_ext H name library_path w2 = (Inl e, w3)"
  shows "compile_and_load H name src w0 = (Inl e, w3)"
  by (simp add: compile_and_load_def assms)

lemma build_callback_fn_sequence:
  assumes "list_or_tuple userdata_names = Some names" and "fresh_name H w = (name, w0)"
  shows "build_callback_fn H function_string userdata_names w =
         compile_and_load H name (source_string names function_string) w0"
  by (simp add: build_callback_fn_def assms)

subsection \<open>The build name\<close>

text \<open>
  Every build name is \<^verbatim>\<open>_fn_\<close> followed by lowercase letters, hence a plain prefix:
  the model of \<^verbatim>\<open>glob\<close> covers each name that \<^verbatim>\<open>build_callback_fn\<close> hands to the
  janitor. The name depends on the host through the random source only.
\<close>

lemma random_letters_set: "set (fst (random_letters H n w)) \<subseteq> set ascii_lowercase"
proof (induction n arbitrary: w)
  case 0
  then show ?case by simp
next
  case (Suc n)
  obtain cs w2 where r: "random_letters H n (w\<lparr>rng_pos := Suc (rng_pos w)\<rparr>) = (cs, w2)"
    by (cases "random_letters H n (w\<lparr>rng_pos := Suc (rng_pos w)\<rparr>)")
  have cs: "set cs \<subseteq> set ascii_lowercase"
    using Suc.IH [of "w\<lparr>rng_pos := Suc (rng_pos w)\<rparr>"] r by simp
  have "draw H (rng_pos w) mod length ascii_lowercase < length ascii_lowercase"
    by (simp add: ascii_lowercase_def)
  then have "ascii_lowercase ! (draw H (rng_pos w) mod length ascii_lowercase) \<in> set ascii_lowercase"
    by (rule nth_mem)
  with cs show ?case by (simp add: choice_def r)
qed

lemma random_letters_length: "length (fst (random_letters H n w)) = n"
proof (induction n arbitrary: w)
  case 0
  then show ?case by simp
next
  case (Suc n)
  obtain cs w2 where r: "random_letters H n (w\<lparr>rng_pos := Suc (rng_pos w)\<rparr>) = (cs, w2)"
    by (cases "random_letters H n (w\<lparr>rng_pos := Suc (rng_pos w)\<rparr>)")
  have "length cs = n"
    using Suc.IH [of "w\<lparr>rng_pos := Suc (rng_pos w)\<rparr>"] r by simp
  then show ?case by (simp add: choice_def r)
qed

lemma lowercase_plain: "\<forall>c \<in> set (''_fn_'' @ ascii_lowercase). c \<notin> set ''*?[/''"
  by code_simp

lemma fresh_name_plain: "plain_prefix (fst (fresh_name H w))"
proof -
  obtain cs w1 where r: "random_letters H 15 w = (cs, w1)" by (cases "random_letters H 15 w")
  have "set cs \<subseteq> set ascii_lowercase" using random_letters_set [of H 15 w] r by simp
  then have "\<forall>c \<in> set (''_fn_'' @ cs). c \<in> set (''_fn_'' @ ascii_lowercase)" by auto
  with lowercase_plain have "\<forall>c \<in> set (''_fn_'' @ cs). c \<notin> set ''*?[/''" by blast
  then show ?thesis by (simp add: fresh_name_def r plain_prefix_def)
qed

lemma random_letters_draw:
  "draw H = draw H' \<Longrightarrow> random_letters H n w = random_letters H' n w"
  by (induction n arbitrary: w) (simp_all add: choice_def)

lemma fresh_name_draw: "draw H = draw H' \<Longrightarrow> fresh_name H w = fresh_name H' w"
  by (simp add: fresh_name_def random_letters_draw [of H H'])

subsection \<open>Runs on the example hosts\<close>

lemma toy_fresh_name: "fresh_name toy_host toy_world = (toy_name, toy_world\<lparr>rng_pos := 15\<rparr>)"
  by code_simp



lemma held_fresh_name:
  "fresh_name held_host toy_world = (toy_name, toy_world\<lparr>rng_pos := 15\<rparr>)"
  using fresh_name_draw [of held_host toy_host toy_world]
  by (simp add: held_host_def toy_fresh_name)

lemma cluttering_fresh_name:
  "fresh_name cluttering_host toy_world = (toy_name, toy_world\<lparr>rng_pos := 15\<rparr>)"
  using fresh_name_draw [of cluttering_host toy_host toy_world]
  by (simp add: cluttering_host_def toy_fresh_name)

lemma cluttering_not_debug: "\<not> debug_fn_builder (os_environ cluttering_host)"
  by code_simp

text \<open>
  The failing builds on the holding and on the cluttering compiler, reduced to the
  steps after the name is drawn.
\<close>

lemma held_failed_run:
  "build_callback_fn held_host ''#error broken'' (PyList [''my_sum'']) toy_world =
   compile_and_load held_host toy_name (source_string [''my_sum''] ''#error broken'')
     (toy_world\<lparr>rng_pos := 15\<rparr>)"
  by (rule build_callback_fn_sequence [OF _ held_fresh_name]) simp

lemma cluttering_failed_run:
  "build_callback_fn cluttering_host ''#error broken'' (PyList [''my_sum'']) toy_world =
   compile_and_load cluttering_host toy_name (source_string [''my_sum''] ''#error broken'')
     (toy_world\<lparr>rng_pos := 15\<rparr>)"
  by (rule build_callback_fn_sequence [OF _ cluttering_fresh_name]) simp

lemma toy_not_debug:
  "\<not> debug_fn_builder (os_environ toy_host)"
  "\<not> debug_fn_builder (os_environ locking_host)"
  "\<not> debug_fn_builder (os_environ unloadable_host)"
  "\<not> debug_fn_builder (os_environ held_host)"
  by code_simp+

section \<open>The janitor and the debug switch\<close>

text \<open>
  Claim C9, as the code has it. For a plain prefix \<open>name\<close>: when the variable
  \<^verbatim>\<open>MUJOCO_PY_DEBUG_FN_BUILDER\<close> is unset or empty, \<^verbatim>\<open>build_fn_cleanup\<close> goes through
  the entries that begin with \<open>name\<close> in the order \<^verbatim>\<open>glob\<close> lists them. It removes
  each one, except that an entry whose removal raises \<^verbatim>\<open>PermissionError\<close> is left on
  disk and reported by one printed line, and that the first entry whose removal raises
  any other exception ends the call with that exception, the entries after it
  untouched. So when no removal raises anything but \<^verbatim>\<open>PermissionError\<close>, the call
  returns normally, the directory keeps exactly the files that do not begin with
  \<open>name\<close> and the refused ones, and the output gains one line per refused file. When
  the variable holds any non-empty string, the call is a no-op: the world is returned
  unchanged.
\<close>

theorem build_fn_cleanup_effect:
  assumes "plain_prefix name"
  shows "(map_of env ''MUJOCO_PY_DEBUG_FN_BUILDER'' \<in> {None, Some []} \<longrightarrow>
            build_fn_cleanup env name w =
              (case first_blocking w (glob_star name w) of None \<Rightarrow> Inr () | Some e \<Rightarrow> Inl e,
               w\<lparr>files :=
                   filter (\<lambda>f. f \<notin> set (reached w (glob_star name w)) \<or> refused w f) (files w),
                 stdout := stdout w @
                   map (refusal_report w) (filter (refused w) (reached w (glob_star name w)))\<rparr>)
          \<and> (first_blocking w (glob_star name w) = None \<longrightarrow>
               build_fn_cleanup env name w =
                 (Inr (),
                  w\<lparr>files := filter (\<lambda>f. \<not> prefix name f \<or> refused w f) (files w),
                    stdout := stdout w @
                      map (refusal_report w) (filter (refused w) (glob_star name w))\<rparr>)))
       \<and> (map_of env ''MUJOCO_PY_DEBUG_FN_BUILDER'' \<notin> {None, Some []} \<longrightarrow>
            build_fn_cleanup env name w = (Inr (), w))"
proof (intro conjI impI)
  assume "map_of env ''MUJOCO_PY_DEBUG_FN_BUILDER'' \<in> {None, Some []}"
  then have nd: "\<not> debug_fn_builder env" by (simp add: debug_fn_builder_iff)
  show "build_fn_cleanup env name w =
              (case first_blocking w (glob_star name w) of None \<Rightarrow> Inr () | Some e \<Rightarrow> Inl e,
               w\<lparr>files :=
                   filter (\<lambda>f. f \<notin> set (reached w (glob_star name w)) \<or> refused w f) (files w),
                 stdout := stdout w @
                   map (refusal_report w) (filter (refused w) (reached w (glob_star name w)))\<rparr>)"
    by (rule cleanup_effect [OF nd])
  assume "first_blocking w (glob_star name w) = None"
  with nd show "build_fn_cleanup env name w =
                 (Inr (),
                  w\<lparr>files := filter (\<lambda>f. \<not> prefix name f \<or> refused w f) (files w),
                    stdout := stdout w @
                      map (refusal_report w) (filter (refused w) (glob_star name w))\<rparr>)"
    by (rule cleanup_quiet)
next
  assume "map_of env ''MUJOCO_PY_DEBUG_FN_BUILDER'' \<notin> {None, Some []}"
  then have "debug_fn_builder env" by (simp add: debug_fn_builder_iff)
  then show "build_fn_cleanup env name w = (Inr (), w)" by (rule cleanup_debug)
qed

text \<open>
  The theorem on a directory with a source file and a locked library, once without and
  once with the variable: the source file goes, the library stays and is reported.
\<close>

theorem build_fn_cleanup_effect_witness:
  "plain_prefix toy_name
   \<and> map_of ([] :: environ) ''MUJOCO_PY_DEBUG_FN_BUILDER'' \<in> {None, Some []}
   \<and> first_blocking busy_world (glob_star toy_name busy_world) = None
   \<and> build_fn_cleanup [] toy_name busy_world =
       (Inr (),
        busy_world
          \<lparr>files := [''model.xml'', ''_fn_abcdefghijklmno.so''],
           stdout := [''Error removing _fn_abcdefghijklmno.so, continuing anyway: [WinError 5] Access is denied'']\<rparr>)
   \<and> map_of [(''MUJOCO_PY_DEBUG_FN_BUILDER'', ''1'')] ''MUJOCO_PY_DEBUG_FN_BUILDER'' \<notin> {None, Some []}
   \<and> build_fn_cleanup [(''MUJOCO_PY_DEBUG_FN_BUILDER'', ''1'')] toy_name busy_world = (Inr (), busy_world)"
proof -
  have p: "plain_prefix toy_name" by code_simp
  have u: "map_of ([] :: environ) ''MUJOCO_PY_DEBUG_FN_BUILDER'' \<in> {None, Some []}" by simp
  have q: "first_blocking busy_world (glob_star toy_name busy_world) = None" by code_simp
  have s: "map_of [(''MUJOCO_PY_DEBUG_FN_BUILDER'', ''1'')] ''MUJOCO_PY_DEBUG_FN_BUILDER'' \<notin> {None, Some []}"
    by simp
  have ev: "(Inr () :: exn + unit,
        busy_world
          \<lparr>files := filter (\<lambda>f. \<not> prefix toy_name f \<or> refused busy_world f) (files busy_world),
           stdout := stdout busy_world @
             map (refusal_report busy_world) (filter (refused busy_world) (glob_star toy_name busy_world))\<rparr>) =
       (Inr (),
        busy_world
          \<lparr>files := [''model.xml'', ''_fn_abcdefghijklmno.so''],
           stdout := [''Error removing _fn_abcdefghijklmno.so, continuing anyway: [WinError 5] Access is denied'']\<rparr>)"
    by code_simp
  note eff = build_fn_cleanup_effect [OF p, of "[]" busy_world]
  note quiet = eff [THEN conjunct1, THEN mp, OF u, THEN conjunct2, THEN mp, OF q]
  have a: "build_fn_cleanup [] toy_name busy_world =
       (Inr (),
        busy_world
          \<lparr>files := [''model.xml'', ''_fn_abcdefghijklmno.so''],
           stdout := [''Error removing _fn_abcdefghijklmno.so, continuing anyway: [WinError 5] Access is denied'']\<rparr>)"
    using quiet ev by (rule trans)
  have b: "build_fn_cleanup [(''MUJOCO_PY_DEBUG_FN_BUILDER'', ''1'')] toy_name busy_world = (Inr (), busy_world)"
    using build_fn_cleanup_effect
      [OF p, of "[(''MUJOCO_PY_DEBUG_FN_BUILDER'', ''1'')]" busy_world, THEN conjunct2] s
    by (rule mp)
  show ?thesis by (intro conjI p u q a s b)
qed

text \<open>
  Claim C9 as stated fails in three ways. With the variable unset, a file that begins
  with the prefix and is locked is still in the directory after the cleanup. With the
  variable unset and a directory among the entries, the cleanup ends with
  \<^verbatim>\<open>IsADirectoryError\<close> and the library listed after the directory, which nothing
  protects, is still there. With the variable set to the string \<^verbatim>\<open>false\<close>, nothing is
  deleted at all: every non-empty string switches the cleanup off.
\<close>

theorem build_fn_cleanup_leaves_files:
  "plain_prefix toy_name
   \<and> prefix toy_name ''_fn_abcdefghijklmno.so''
   \<and> map_of ([] :: environ) ''MUJOCO_PY_DEBUG_FN_BUILDER'' = None
   \<and> ''_fn_abcdefghijklmno.so'' \<in> set (files (snd (build_fn_cleanup [] toy_name busy_world)))
   \<and> \<not> refused cluttered_world ''_fn_abcdefghijklmno.so''
   \<and> fst (build_fn_cleanup [] toy_name cluttered_world) =
       Inl (IsADirectoryError ''_fn_abcdefghijklmno.dSYM'')
   \<and> ''_fn_abcdefghijklmno.so'' \<in> set (files (snd (build_fn_cleanup [] toy_name cluttered_world)))
   \<and> map_of [(''MUJOCO_PY_DEBUG_FN_BUILDER'', ''false'')] ''MUJOCO_PY_DEBUG_FN_BUILDER'' = Some ''false''
   \<and> build_fn_cleanup [(''MUJOCO_PY_DEBUG_FN_BUILDER'', ''false'')] toy_name toy_world_after_build =
       (Inr (), toy_world_after_build)
   \<and> ''_fn_abcdefghijklmno.so'' \<in> set (files toy_world_after_build)
   \<and> \<not> refused toy_world_after_build ''_fn_abcdefghijklmno.so''"
  by code_simp

section \<open>The layout of the synthesized source\<close>

text \<open>
  Claim C4. For every list of alias names, the text handed to the compiler is the fixed
  header line, then one substitution directive per name, the directive at position
  \<open>i\<close> mapping the \<open>i\<close>-th name to slot \<open>i\<close> of the user-data array, then the
  caller's function body, then the line that stores the address of \<^verbatim>\<open>fun\<close> in the
  exported symbol \<^verbatim>\<open>__fun\<close>. There are exactly as many directives as names.
  \<open>source_string\<close> is a total function: synthesis has no failing branch.
\<close>

theorem source_string_layout:
  "source_string names function_string =
     ''#include <mujoco.h>'' @ newline
     @ concat (map (\<lambda>i. substitution_directive (names ! i) i) [0..<length names])
     @ function_string
     @ newline @ ''uintptr_t __fun = (uintptr_t) fun;''
   \<and> length (map (\<lambda>i. substitution_directive (names ! i) i) [0..<length names]) = length names"
  by (simp add: source_string_def add_defines_closed)

text \<open>The layout for two names, written out.\<close>

theorem source_string_layout_witness:
  "source_string [''my_sum'', ''count''] ''void fun(const mjModel* m, mjData* d) { my_sum += 1; }'' =
     ''#include <mujoco.h>'' @ newline
     @ ''#define my_sum d->userdata[0]'' @ newline
     @ ''#define count d->userdata[1]'' @ newline
     @ ''void fun(const mjModel* m, mjData* d) { my_sum += 1; }''
     @ newline @ ''uintptr_t __fun = (uintptr_t) fun;''"
proof -
  have d: "concat (map (\<lambda>i. substitution_directive ([''my_sum'', ''count''] ! i) i) [0..<length [''my_sum'', ''count'']])
           = ''#define my_sum d->userdata[0]'' @ newline @ ''#define count d->userdata[1]'' @ newline"
    by code_simp
  show ?thesis
    using source_string_layout [of "[''my_sum'', ''count'']" "''void fun(const mjModel* m, mjData* d) { my_sum += 1; }''"]
    unfolding d by simp
qed

section \<open>The argument check\<close>

text \<open>
  Claim C10. When \<^verbatim>\<open>userdata_names\<close> is neither a list nor a tuple,
  \<^verbatim>\<open>build_callback_fn\<close> raises \<^verbatim>\<open>AssertionError\<close> and returns the world as it
  received it: no random draw, no call of the compiler, no file and no output. The
  assertion is the first statement of the function; the model takes assertions as
  enabled, the interpreter's default.
\<close>

theorem non_sequence_rejected_first:
  "list_or_tuple userdata_names = None \<Longrightarrow>
   build_callback_fn H function_string userdata_names w =
     (Inl (AssertionError (''invalid userdata_names: '' @ py_format userdata_names)), w)"
  by (simp add: build_callback_fn_def)

text \<open>A string and \<^verbatim>\<open>None\<close> as the argument.\<close>

theorem non_sequence_rejected_first_witness:
  "list_or_tuple (PyStr ''my_sum'') = None
   \<and> list_or_tuple PyNone = None
   \<and> build_callback_fn toy_host ''void fun(const mjModel* m, mjData* d) {}'' (PyStr ''my_sum'') toy_world =
       (Inl (AssertionError ''invalid userdata_names: my_sum''), toy_world)
   \<and> build_callback_fn toy_host ''void fun(const mjModel* m, mjData* d) {}'' PyNone toy_world =
       (Inl (AssertionError ''invalid userdata_names: None''), toy_world)"
  using non_sequence_rejected_first [of "PyStr ''my_sum''" toy_host "''void fun(const mjModel* m, mjData* d) {}''" toy_world]
    non_sequence_rejected_first [of PyNone toy_host "''void fun(const mjModel* m, mjData* d) {}''" toy_world]
  by simp

section \<open>Cleanup after a failed compilation\<close>

text \<open>
  Claim C8, as the code has it. When the compiler raises \<open>e\<close>, \<^verbatim>\<open>build_callback_fn\<close>
  runs \<^verbatim>\<open>build_fn_cleanup\<close> for the build's name on the world the compiler left,
  before anything reaches the caller. If the janitor returns, the same \<open>e\<close> is raised;
  if the janitor raises, its exception is the one that reaches the caller. Outside
  debug mode: when no removal raises anything but \<^verbatim>\<open>PermissionError\<close>, the caller
  gets \<open>e\<close>, the files left are those that do not begin with the name and those that
  do but whose removal was refused, and each refused file is reported by one printed
  line; when some removal raises another exception, the caller gets that exception. In
  debug mode the caller gets \<open>e\<close> and the world as the compiler left it.
\<close>

theorem compile_failure_runs_janitor:
  assumes "list_or_tuple userdata_names = Some names"
    and "fresh_name H w = (name, w0)"
    and "ffi_compile H name (source_string names function_string) (mujoco_path H) w0 = (Inl e, w1)"
  shows "build_callback_fn H function_string userdata_names w =
           (case fst (build_fn_cleanup (os_environ H) name w1) of
              Inl e' \<Rightarrow> Inl e' | Inr u \<Rightarrow> Inl e,
            snd (build_fn_cleanup (os_environ H) name w1))
       \<and> (\<not> debug_fn_builder (os_environ H) \<and> first_blocking w1 (glob_star name w1) = None \<longrightarrow>
            build_callback_fn H function_string userdata_names w =
              (Inl e,
               w1\<lparr>files := filter (\<lambda>f. \<not> prefix name f \<or> refused w1 f) (files w1),
                 stdout := stdout w1 @
                   map (refusal_report w1) (filter (refused w1) (glob_star name w1))\<rparr>))
       \<and> (\<not> debug_fn_builder (os_environ H) \<and> first_blocking w1 (glob_star name w1) = Some e' \<longrightarrow>
            fst (build_callback_fn H function_string userdata_names w) = Inl e')
       \<and> (debug_fn_builder (os_environ H) \<longrightarrow>
            build_callback_fn H function_string userdata_names w = (Inl e, w1))"
proof -
  have r: "build_callback_fn H function_string userdata_names w =
           (case fst (build_fn_cleanup (os_environ H) name w1) of
              Inl e' \<Rightarrow> Inl e' | Inr u \<Rightarrow> Inl e,
            snd (build_fn_cleanup (os_environ H) name w1))"
    using assms by (simp add: build_callback_fn_sequence compile_and_load_failure)
  have q: "\<not> debug_fn_builder (os_environ H) \<and> first_blocking w1 (glob_star name w1) = None \<longrightarrow>
            build_callback_fn H function_string userdata_names w =
              (Inl e,
               w1\<lparr>files := filter (\<lambda>f. \<not> prefix name f \<or> refused w1 f) (files w1),
                 stdout := stdout w1 @
                   map (refusal_report w1) (filter (refused w1) (glob_star name w1))\<rparr>)"
    unfolding r by (simp add: cleanup_quiet)
  have b: "\<not> debug_fn_builder (os_environ H) \<and> first_blocking w1 (glob_star name w1) = Some e' \<longrightarrow>
            fst (build_callback_fn H function_string userdata_names w) = Inl e'"
    unfolding r by (simp add: cleanup_blocked)
  have g: "debug_fn_builder (os_environ H) \<longrightarrow>
            build_callback_fn H function_string userdata_names w = (Inl e, w1)"
    unfolding r by (simp add: cleanup_debug)
  show ?thesis by (intro conjI r q b g)
qed

text \<open>
  A source with an \<^verbatim>\<open>#error\<close> line, on a compiler whose partial output is held by
  another process: the janitor reports the file and the compiler's failure is raised.
\<close>

theorem compile_failure_runs_janitor_witness:
  "list_or_tuple (PyList [''my_sum'']) = Some [''my_sum'']
   \<and> fresh_name held_host toy_world = (toy_name, toy_world\<lparr>rng_pos := 15\<rparr>)
   \<and> ffi_compile held_host toy_name (source_string [''my_sum''] ''#error broken'') (mujoco_path held_host)
        (toy_world\<lparr>rng_pos := 15\<rparr>) =
       (Inl (OtherError ''VerificationError''), held_world)
   \<and> \<not> debug_fn_builder (os_environ held_host)
   \<and> first_blocking held_world (glob_star toy_name held_world) = None
   \<and> build_callback_fn held_host ''#error broken'' (PyList [''my_sum'']) toy_world =
       (Inl (OtherError ''VerificationError''),
        held_world\<lparr>files := [''model.xml'', ''_fn_abcdefghijklmno.c''],
          stdout := [''Error removing _fn_abcdefghijklmno.c, continuing anyway: [WinError 32] File in use'']\<rparr>)"
proof -
  have a: "list_or_tuple (PyList [''my_sum'']) = Some [''my_sum'']" by simp
  note b = held_fresh_name
  have c: "ffi_compile held_host toy_name (source_string [''my_sum''] ''#error broken'')
             (mujoco_path held_host) (toy_world\<lparr>rng_pos := 15\<rparr>) =
           (Inl (OtherError ''VerificationError''), held_world)"
    by code_simp
  note d = toy_not_debug(4)
  have q: "first_blocking held_world (glob_star toy_name held_world) = None" by code_simp
  have ev: "(Inl (OtherError ''VerificationError'') :: exn + int,
             held_world\<lparr>files := filter (\<lambda>f. \<not> prefix toy_name f \<or> refused held_world f) (files held_world),
               stdout := stdout held_world @
                 map (refusal_report held_world) (filter (refused held_world) (glob_star toy_name held_world))\<rparr>) =
            (Inl (OtherError ''VerificationError''),
             held_world\<lparr>files := [''model.xml'', ''_fn_abcdefghijklmno.c''],
               stdout := [''Error removing _fn_abcdefghijklmno.c, continuing anyway: [WinError 32] File in use'']\<rparr>)"
    by code_simp
  note janitor = compile_failure_runs_janitor [OF a b c]
  note quiet = janitor [THEN conjunct2, THEN conjunct1, THEN mp, OF conjI [OF d q]]
  have r: "build_callback_fn held_host ''#error broken'' (PyList [''my_sum'']) toy_world =
       (Inl (OtherError ''VerificationError''),
        held_world\<lparr>files := [''model.xml'', ''_fn_abcdefghijklmno.c''],
          stdout := [''Error removing _fn_abcdefghijklmno.c, continuing anyway: [WinError 32] File in use'']\<rparr>)"
    using quiet ev by (rule trans)
  show ?thesis by (intro conjI a b c d q r)
qed

text \<open>
  Claim C8 as stated fails, outside debug mode, in two ways. A partial artifact that
  another process holds when the compiler fails is still in the directory when the
  failure reaches the caller. And when the compiler has left a directory that begins
  with the build's name, the janitor ends with \<^verbatim>\<open>IsADirectoryError\<close>: that exception,
  not the compiler's, reaches the caller, and the partial source file listed after
  the directory is still there.
\<close>

theorem compile_failure_artifacts_survive:
  "list_or_tuple (PyList [''my_sum'']) = Some [''my_sum'']
   \<and> \<not> debug_fn_builder (os_environ held_host)
   \<and> fst (fresh_name held_host toy_world) = toy_name
   \<and> prefix toy_name ''_fn_abcdefghijklmno.c''
   \<and> fst (build_callback_fn held_host ''#error broken'' (PyList [''my_sum'']) toy_world) =
       Inl (OtherError ''VerificationError'')
   \<and> ''_fn_abcdefghijklmno.c'' \<in>
       set (files (snd (build_callback_fn held_host ''#error broken'' (PyList [''my_sum'']) toy_world)))
   \<and> \<not> debug_fn_builder (os_environ cluttering_host)
   \<and> fst (fresh_name cluttering_host toy_world) = toy_name
   \<and> fst (ffi_compile cluttering_host toy_name (source_string [''my_sum''] ''#error broken'')
             (mujoco_path cluttering_host) (toy_world\<lparr>rng_pos := 15\<rparr>)) =
       Inl (OtherError ''VerificationError'')
   \<and> fst (build_callback_fn cluttering_host ''#error broken'' (PyList [''my_sum'']) toy_world) =
       Inl (IsADirectoryError ''_fn_abcdefghijklmno.dSYM'')
   \<and> ''_fn_abcdefghijklmno.c'' \<in>
       set (files (snd (build_callback_fn cluttering_host ''#error broken'' (PyList [''my_sum'']) toy_world)))"
proof -
  have a: "list_or_tuple (PyList [''my_sum'']) = Some [''my_sum'']" by simp
  have n1: "fst (fresh_name held_host toy_world) = toy_name" by (simp add: held_fresh_name)
  have n2: "fst (fresh_name cluttering_host toy_world) = toy_name"
    by (simp add: cluttering_fresh_name)
  have p: "prefix toy_name ''_fn_abcdefghijklmno.c''" by code_simp
  have c: "fst (ffi_compile cluttering_host toy_name (source_string [''my_sum''] ''#error broken'')
             (mujoco_path cluttering_host) (toy_world\<lparr>rng_pos := 15\<rparr>)) =
       Inl (OtherError ''VerificationError'')"
    by code_simp
  have r1: "fst (build_callback_fn held_host ''#error broken'' (PyList [''my_sum'']) toy_world) =
       Inl (OtherError ''VerificationError'')"
    unfolding held_failed_run by code_simp
  have m1: "''_fn_abcdefghijklmno.c'' \<in>
       set (files (snd (build_callback_fn held_host ''#error broken'' (PyList [''my_sum'']) toy_world)))"
    unfolding held_failed_run by code_simp
  have r2: "fst (build_callback_fn cluttering_host ''#error broken'' (PyList [''my_sum'']) toy_world) =
       Inl (IsADirectoryError ''_fn_abcdefghijklmno.dSYM'')"
    unfolding cluttering_failed_run by code_simp
  have m2: "''_fn_abcdefghijklmno.c'' \<in>
       set (files (snd (build_callback_fn cluttering_host ''#error broken'' (PyList [''my_sum'']) toy_world)))"
    unfolding cluttering_failed_run by code_simp
  show ?thesis by (intro conjI a toy_not_debug(4) n1 p r1 m1 cluttering_not_debug n2 c r2 m2)
qed

section \<open>Cleanup over the whole callback build\<close>




text \<open>
  The two failure paths that skip the janitor, in general: the world that the failing
  step left is the world the caller gets.
\<close>

lemma relink_failure_skips_janitor:
  assumes "list_or_tuple userdata_names = Some names"
    and "fresh_name H w = (name, w0)"
    and "ffi_compile H name (source_string names function_string) (mujoco_path H) w0 = (Inr library_path, w1)"
    and "relink H library_path w1 = (Inl e, w2)"
  shows "build_callback_fn H function_string userdata_names w = (Inl e, w2)"
  using assms by (simp add: build_callback_fn_sequence compile_and_load_relink_failure)

lemma loader_failure_skips_janitor:
  assumes "list_or_tuple userdata_names = Some names"
    and "fresh_name H w = (name, w0)"
    and "ffi_compile H name (source_string names function_string) (mujoco_path H) w0 = (Inr library_path, w1)"
    and "relink H library_path w1 = (Inr (), w2)"
    and "load_dynamic_ext H name library_path w2 = (Inl e, w3)"
  shows "build_callback_fn H function_string userdata_names w = (Inl e, w3)"
  using assms by (simp add: build_callback_fn_sequence compile_and_load_loader_failure)

section \<open>Duplicate alias names\<close>

text \<open>
  Claim C3, as the code has it. \<^verbatim>\<open>build_callback_fn\<close> never compares the alias names
  with each other. Every list or tuple of names, with or without a duplicate, is
  synthesized in the same way, one directive per position, and handed to the compiler;
  when compiler, relink and loader succeed and the janitor returns normally, the call
  returns what reading \<^verbatim>\<open>__fun\<close> gives.
\<close>

theorem duplicate_aliases_reach_compiler:
  assumes "list_or_tuple userdata_names = Some names"
    and "fresh_name H w = (name, w0)"
    and "ffi_compile H name (source_string names function_string) (mujoco_path H) w0 = (Inr library_path, w1)"
    and "relink H library_path w1 = (Inr (), w2)"
    and "load_dynamic_ext H name library_path w2 = (Inr m, w3)"
    and "fst (build_fn_cleanup (os_environ H) name w3) = Inr ()"
  shows "fst (build_callback_fn H function_string userdata_names w) = read_fun m
       \<and> source_string names function_string =
           ''#include <mujoco.h>'' @ newline
           @ concat (map (\<lambda>i. substitution_directive (names ! i) i) [0..<length names])
           @ function_string
           @ newline @ ''uintptr_t __fun = (uintptr_t) fun;''"
proof
  have "build_callback_fn H function_string userdata_names w =
         (case fst (build_fn_cleanup (os_environ H) name w3) of
            Inl e' \<Rightarrow> Inl e' | Inr u \<Rightarrow> read_fun m,
          snd (build_fn_cleanup (os_environ H) name w3))"
    using assms(1-5) by (simp add: build_callback_fn_sequence compile_and_load_success)
  then show "fst (build_callback_fn H function_string userdata_names w) = read_fun m"
    by (simp add: assms(6))
  show "source_string names function_string =
           ''#include <mujoco.h>'' @ newline
           @ concat (map (\<lambda>i. substitution_directive (names ! i) i) [0..<length names])
           @ function_string
           @ newline @ ''uintptr_t __fun = (uintptr_t) fun;''"
    by (simp add: source_string_def add_defines_closed)
qed

text \<open>The same name twice, on the toy host.\<close>

theorem duplicate_aliases_reach_compiler_witness:
  "\<not> distinct [''my_sum'', ''my_sum'']
   \<and> list_or_tuple (PyList [''my_sum'', ''my_sum'']) = Some [''my_sum'', ''my_sum'']
   \<and> fresh_name toy_host toy_world = (toy_name, toy_world\<lparr>rng_pos := 15\<rparr>)
   \<and> ffi_compile toy_host toy_name (source_string [''my_sum'', ''my_sum''] ''void fun() {}'') (mujoco_path toy_host)
        (toy_world\<lparr>rng_pos := 15\<rparr>) =
       (Inr ''_fn_abcdefghijklmno.so'', toy_world_after_build)
   \<and> relink toy_host ''_fn_abcdefghijklmno.so'' toy_world_after_build = (Inr (), toy_world_after_build)
   \<and> load_dynamic_ext toy_host toy_name ''_fn_abcdefghijklmno.so'' toy_world_after_build =
       (Inr (Ext_module [(''__fun'', 4096)]), toy_world_after_build)
   \<and> fst (build_fn_cleanup (os_environ toy_host) toy_name toy_world_after_build) = Inr ()
   \<and> fst (build_callback_fn toy_host ''void fun() {}'' (PyList [''my_sum'', ''my_sum'']) toy_world) = Inr 4096"
proof -
  let ?w0 = "toy_world\<lparr>rng_pos := 15\<rparr>"
  let ?m = "Ext_module [(''__fun'', 4096)]"
  have n: "\<not> distinct [''my_sum'', ''my_sum'']" by simp
  have a: "list_or_tuple (PyList [''my_sum'', ''my_sum'']) = Some [''my_sum'', ''my_sum'']" by simp
  note b = toy_fresh_name
  have s1: "ffi_compile toy_host toy_name (source_string [''my_sum'', ''my_sum''] ''void fun() {}'')
             (mujoco_path toy_host) ?w0 = (Inr ''_fn_abcdefghijklmno.so'', toy_world_after_build)"
    by code_simp
  have s2: "relink toy_host ''_fn_abcdefghijklmno.so'' toy_world_after_build =
            (Inr (), toy_world_after_build)"
    by code_simp
  have s3: "load_dynamic_ext toy_host toy_name ''_fn_abcdefghijklmno.so'' toy_world_after_build =
            (Inr ?m, toy_world_after_build)"
    by code_simp
  have j: "fst (build_fn_cleanup (os_environ toy_host) toy_name toy_world_after_build) = Inr ()"
    by code_simp
  have s4: "read_fun ?m = Inr 4096" by code_simp
  have "fst (build_callback_fn toy_host ''void fun() {}'' (PyList [''my_sum'', ''my_sum'']) toy_world) = read_fun ?m"
    using duplicate_aliases_reach_compiler [OF a b s1 s2 s3 j] by (rule conjunct1)
  then have r: "fst (build_callback_fn toy_host ''void fun() {}'' (PyList [''my_sum'', ''my_sum'']) toy_world) = Inr 4096"
    using s4 by (rule trans)
  show ?thesis by (intro conjI n a b s1 s2 s3 j r)
qed

text \<open>
  Claim C3 as stated fails: a request with the same alias twice is not rejected. It
  builds, and its source has both directives.
\<close>

theorem duplicate_aliases_accepted:
  "\<not> distinct [''my_sum'', ''my_sum'']
   \<and> fst (build_callback_fn toy_host ''void fun() {}'' (PyList [''my_sum'', ''my_sum'']) toy_world) = Inr 4096
   \<and> source_string [''my_sum'', ''my_sum''] ''void fun() {}'' =
       ''#include <mujoco.h>'' @ newline
       @ ''#define my_sum d->userdata[0]'' @ newline
       @ ''#define my_sum d->userdata[1]'' @ newline
       @ ''void fun() {}'' @ newline @ ''uintptr_t __fun = (uintptr_t) fun;''"
proof -
  have n: "\<not> distinct [''my_sum'', ''my_sum'']" by simp
  have a: "list_or_tuple (PyList [''my_sum'', ''my_sum'']) = Some [''my_sum'', ''my_sum'']" by simp
  have run: "build_callback_fn toy_host ''void fun() {}'' (PyList [''my_sum'', ''my_sum'']) toy_world =
             compile_and_load toy_host toy_name (source_string [''my_sum'', ''my_sum''] ''void fun() {}'')
               (toy_world\<lparr>rng_pos := 15\<rparr>)"
    by (rule build_callback_fn_sequence [OF a toy_fresh_name])
  have r: "fst (build_callback_fn toy_host ''void fun() {}'' (PyList [''my_sum'', ''my_sum'']) toy_world) = Inr 4096"
    unfolding run by code_simp
  have s: "source_string [''my_sum'', ''my_sum''] ''void fun() {}'' =
       ''#include <mujoco.h>'' @ newline
       @ ''#define my_sum d->userdata[0]'' @ newline
       @ ''#define my_sum d->userdata[1]'' @ newline
       @ ''void fun() {}'' @ newline @ ''uintptr_t __fun = (uintptr_t) fun;''"
    by code_simp
  show ?thesis by (intro conjI n r s)
qed

section \<open>The warning scope\<close>

text \<open>
  Claim C5. Whatever translator is in the slot when the statement
  \<^verbatim>\<open>with ignore_mujoco_warnings(): body\<close> starts, the body is run on the world in
  which the slot holds the no-op translator and nothing else is changed; the statement
  ends as the body ended, with its value or its exception; and afterwards the slot
  holds the translator it held at the start, in both cases.
\<close>

theorem scope_restores_translator:
  "with_ignore_mujoco_warnings body w =
     (fst (body (w\<lparr>warning_callback := User_warning_ignore_exception\<rparr>)),
      (snd (body (w\<lparr>warning_callback := User_warning_ignore_exception\<rparr>)))
        \<lparr>warning_callback := warning_callback w\<rparr>)
   \<and> warning_callback (w\<lparr>warning_callback := User_warning_ignore_exception\<rparr>) =
       User_warning_ignore_exception
   \<and> warning_callback (snd (with_ignore_mujoco_warnings body w)) = warning_callback w"
  by (cases "body (w\<lparr>warning_callback := User_warning_ignore_exception\<rparr>)")
     (simp add: with_ignore_mujoco_warnings_def ignore_mujoco_warnings_enter_def
        ignore_mujoco_warnings_exit_def)

text \<open>A body that prints and then raises, entered with a foreign translator in the slot.\<close>

theorem scope_restores_translator_witness:
  "warning_callback
     (snd (with_ignore_mujoco_warnings
            (\<lambda>w. (Inl (MujocoException ''step failed'') :: exn + unit,
                   w\<lparr>stdout := stdout w @ [''stepping'']\<rparr>))
            (toy_world\<lparr>warning_callback := Other_callback 7\<rparr>)))
   = Other_callback 7
   \<and> fst (with_ignore_mujoco_warnings
            (\<lambda>w. (Inl (MujocoException ''step failed'') :: exn + unit,
                   w\<lparr>stdout := stdout w @ [''stepping'']\<rparr>))
            (toy_world\<lparr>warning_callback := Other_callback 7\<rparr>))
   = Inl (MujocoException ''step failed'')"
  using scope_restores_translator
    [of "\<lambda>w. (Inl (MujocoException ''step failed'') :: exn + unit,
                   w\<lparr>stdout := stdout w @ [''stepping'']\<rparr>)"
        "toy_world\<lparr>warning_callback := Other_callback 7\<rparr>"]
  by simp

section \<open>The raising translator\<close>

text \<open>The chain of tests in the code is the first match over the list of rules.\<close>

lemma first_match_rules:
  "first_match warning_rules warn =
     (if contains ''Pre-allocated constraint buffer is full'' warn
      then Some (''Pre-allocated constraint buffer is full'', ''Increase njmax in mujoco XML'')
      else if contains ''Pre-allocated contact buffer is full'' warn
      then Some (''Pre-allocated contact buffer is full'', ''Increase njconmax in mujoco XML'')
      else if contains ''Unknown warning type'' warn
      then Some (''Unknown warning type'', ''Check for NaN in simulation.'')
      else None)"
  unfolding warning_rules_def first_match.simps by (rule refl)

text \<open>
  Claim C6. \<^verbatim>\<open>user_warning_raise_exception\<close> raises on every input: it has no normal
  return. When the bytes decode to a text \<open>warn\<close>, the exception is a
  \<^verbatim>\<open>MujocoException\<close> whose message contains \<open>warn\<close>; the rules are tried in their
  fixed order and the first whose pattern occurs in \<open>warn\<close> decides the message, which
  is \<open>warn\<close> followed by that rule's hint and so contains the hint; when no pattern
  occurs, the message is \<open>warn\<close> behind the generic prefix.
\<close>

theorem raising_translator_always_raises:
  "(\<exists>e. user_warning_raise_exception decode warn_bytes = Inl e)
   \<and> (decode warn_bytes = Inr warn \<longrightarrow>
        (\<exists>msg. user_warning_raise_exception decode warn_bytes = Inl (MujocoException msg)
           \<and> contains warn msg
           \<and> msg = (case first_match warning_rules warn of
                      Some (pat, hint) \<Rightarrow> warn @ hint
                    | None \<Rightarrow> ''Got MuJoCo Warning: '' @ warn)
           \<and> (\<forall>pat hint. first_match warning_rules warn = Some (pat, hint) \<longrightarrow> contains hint msg)))"
proof (intro conjI impI)
  show "\<exists>e. user_warning_raise_exception decode warn_bytes = Inl e"
    by (simp add: user_warning_raise_exception_def split: sum.splits)
next
  assume d: "decode warn_bytes = Inr warn"
  let ?msg = "case first_match warning_rules warn of
                Some (pat, hint) \<Rightarrow> warn @ hint
              | None \<Rightarrow> ''Got MuJoCo Warning: '' @ warn"
  have r: "user_warning_raise_exception decode warn_bytes = Inl (MujocoException ?msg)"
    by (simp add: user_warning_raise_exception_def d first_match_rules)
  have c: "contains warn ?msg"
  proof (cases "first_match warning_rules warn")
    case None
    then show ?thesis using contains_right [of warn "''Got MuJoCo Warning: ''"] by simp
  next
    case (Some rule)
    then show ?thesis by (cases rule) (simp add: contains_left)
  qed
  have h: "\<forall>pat hint. first_match warning_rules warn = Some (pat, hint) \<longrightarrow> contains hint ?msg"
    by (simp add: contains_right)
  show "\<exists>msg. user_warning_raise_exception decode warn_bytes = Inl (MujocoException msg)
           \<and> contains warn msg
           \<and> msg = ?msg
           \<and> (\<forall>pat hint. first_match warning_rules warn = Some (pat, hint) \<longrightarrow> contains hint msg)"
    by (intro exI [of _ ?msg] conjI r c h refl)
qed

text \<open>
  A text in which the second and the first pattern both occur, in that order: the
  first rule wins.
\<close>

theorem raising_translator_always_raises_witness:
  "ascii_decode ''WARNING: Pre-allocated contact buffer is full. Pre-allocated constraint buffer is full.'' =
     Inr ''WARNING: Pre-allocated contact buffer is full. Pre-allocated constraint buffer is full.''
   \<and> user_warning_raise_exception ascii_decode
       ''WARNING: Pre-allocated contact buffer is full. Pre-allocated constraint buffer is full.'' =
     Inl (MujocoException
       (''WARNING: Pre-allocated contact buffer is full. Pre-allocated constraint buffer is full.''
        @ ''Increase njmax in mujoco XML''))"
proof -
  let ?t = "''WARNING: Pre-allocated contact buffer is full. Pre-allocated constraint buffer is full.''"
  have d: "ascii_decode ?t = Inr ?t" by code_simp
  have m: "first_match warning_rules ?t =
           Some (''Pre-allocated constraint buffer is full'', ''Increase njmax in mujoco XML'')"
    by code_simp
  from raising_translator_always_raises [of ascii_decode ?t ?t] d
  obtain msg where r: "user_warning_raise_exception ascii_decode ?t = Inl (MujocoException msg)"
    and e: "msg = (case first_match warning_rules ?t of
                      Some (pat, hint) \<Rightarrow> ?t @ hint
                    | None \<Rightarrow> ''Got MuJoCo Warning: '' @ ?t)"
    by blast
  from e have "msg = ?t @ ''Increase njmax in mujoco XML''" unfolding m by simp
  with r d show ?thesis by simp
qed

section \<open>The retry loop of the module build\<close>

text \<open>
  Claim C7. When \<^verbatim>\<open>subprocess.check_call\<close> raises an exception of a caught class in
  the first and in the second attempt, and in the third attempt returns, exactly one
  library is found and \<^verbatim>\<open>load_dynamic_ext\<close> returns the module, then
  \<^verbatim>\<open>compile_with_multiple_attempts\<close> returns that module. Its calls to the outside
  are, in order: build, cleanup, build, cleanup, build, glob, load; that is three
  attempts and two workspace cleanups, one after each failed attempt.
\<close>

theorem two_failures_then_success:
  assumes "check_call E 0 = Some e0" and "caught e0"
    and "check_call E 1 = Some e1" and "caught e1"
    and "check_call E 2 = None"
    and "so_files E 2 = [p]"
    and "load_ext E 2 ''cymj'' p = Inr cymj"
  shows "compile_with_multiple_attempts E =
           (Inr cymj,
            [Check_call 0, Remove_mujoco_build,
             Check_call 1, Remove_mujoco_build,
             Check_call 2, Glob_so 2, Load_dynamic_ext ''cymj'' p])
       \<and> attempts_made (snd (compile_with_multiple_attempts E)) = 3
       \<and> cleanups_made (snd (compile_with_multiple_attempts E)) = 2"
  using assms
  by (simp add: compile_with_multiple_attempts_def try_build_def attempts_made_def cleanups_made_def)

text \<open>A build step that exits with status 1 twice and then succeeds.\<close>

theorem two_failures_then_success_witness:
  "check_call fails_twice 0 = Some (CalledProcessError 1) \<and> caught (CalledProcessError 1)
   \<and> check_call fails_twice 1 = Some (CalledProcessError 1)
   \<and> check_call fails_twice 2 = None
   \<and> so_files fails_twice 2 = [''mujoco_py/generated/cymj.so'']
   \<and> load_ext fails_twice 2 ''cymj'' ''mujoco_py/generated/cymj.so'' =
       Inr (Ext_module [(''set_warning_callback'', 1)])
   \<and> fst (compile_with_multiple_attempts fails_twice) =
       Inr (Ext_module [(''set_warning_callback'', 1)])
   \<and> attempts_made (snd (compile_with_multiple_attempts fails_twice)) = 3
   \<and> cleanups_made (snd (compile_with_multiple_attempts fails_twice)) = 2"
proof -
  have a: "check_call fails_twice 0 = Some (CalledProcessError 1)" by (simp add: fails_twice_def)
  have b: "caught (CalledProcessError 1)" by simp
  have c: "check_call fails_twice 1 = Some (CalledProcessError 1)" by (simp add: fails_twice_def)
  have d: "check_call fails_twice 2 = None" by (simp add: fails_twice_def)
  have e: "so_files fails_twice 2 = [''mujoco_py/generated/cymj.so'']" by (simp add: fails_twice_def)
  have f: "load_ext fails_twice 2 ''cymj'' ''mujoco_py/generated/cymj.so'' =
       Inr (Ext_module [(''set_warning_callback'', 1)])" by (simp add: fails_twice_def)
  note run = two_failures_then_success [OF a b c b d e f]
  have r: "fst (compile_with_multiple_attempts fails_twice) =
       Inr (Ext_module [(''set_warning_callback'', 1)])"
    using run by simp
  have n: "attempts_made (snd (compile_with_multiple_attempts fails_twice)) = 3"
    using run by blast
  have k: "cleanups_made (snd (compile_with_multiple_attempts fails_twice)) = 2"
    using run by blast
  show ?thesis by (intro conjI a b c d e f r n k)
qed

text \<open>
  Claim C2 does not hold of the code. \<^verbatim>\<open>subprocess.check_call\<close> reports an exceeded
  \<^verbatim>\<open>timeout\<close> with \<^verbatim>\<open>subprocess.TimeoutExpired\<close>, and the handler lists the
  builtin \<^verbatim>\<open>TimeoutError\<close>, which is a different class. So when the build step times
  out in every attempt, the first timeout leaves the function: one attempt, no
  workspace cleanup, and the exception that reaches the caller is the timeout itself,
  not the final \<^verbatim>\<open>Exception\<close> of the loop.
\<close>

theorem timeout_escapes_first_attempt:
  "check_call always_times_out 0 = Some TimeoutExpired
   \<and> check_call always_times_out 1 = Some TimeoutExpired
   \<and> check_call always_times_out 2 = Some TimeoutExpired
   \<and> \<not> caught TimeoutExpired
   \<and> compile_with_multiple_attempts always_times_out = (Inl TimeoutExpired, [Check_call 0])
   \<and> attempts_made (snd (compile_with_multiple_attempts always_times_out)) = 1
   \<and> cleanups_made (snd (compile_with_multiple_attempts always_times_out)) = 0"
  by (simp add: compile_with_multiple_attempts_def try_build_def always_times_out_def
      attempts_made_def cleanups_made_def)

text \<open>
  What the loop does with the failures it does catch: three attempts, a cleanup after
  each of them, then the final exception. A failure of any other class leaves at once.
\<close>

lemma caught_failures_reach_cap:
  assumes "check_call E 0 = Some e0" and "caught e0"
    and "check_call E 1 = Some e1" and "caught e1"
    and "check_call E 2 = Some e2" and "caught e2"
  shows "compile_with_multiple_attempts E =
           (Inl (Exception ''Failed to compile mujoco_py.''),
            [Check_call 0, Remove_mujoco_build,
             Check_call 1, Remove_mujoco_build,
             Check_call 2, Remove_mujoco_build])"
  using assms by (simp add: compile_with_multiple_attempts_def try_build_def)

lemma uncaught_failure_escapes:
  assumes "check_call E 0 = Some e" and "\<not> caught e"
  shows "compile_with_multiple_attempts E = (Inl e, [Check_call 0])"
  using assms by (simp add: compile_with_multiple_attempts_def try_build_def)

end
